theory Spec2Isabelle
  imports Complex_Main "HOL-Library.Sublist"
begin

section \<open>Python values and exceptions\<close>

text \<open>
  The exceptions that the modelled part of \<^verbatim>\<open>thirsty/cli.py\<close> can raise. Every function
  that can raise returns \<open>error + 'a\<close>, with \<open>Inl\<close> for the exception.
  \<open>UnboundLocalError\<close> is a subclass of \<open>NameError\<close> in Python; the two are kept apart
  here. \<open>HTTPError\<close> stands for whatever
  \<^verbatim>\<open>requests.post\<close>, \<^verbatim>\<open>raise_for_status\<close> or \<^verbatim>\<open>response.json\<close> raise.
\<close>

datatype error =
    ValueError
  | KeyError string
  | TypeError
  | NameError string
  | UnboundLocalError string
  | HTTPError

text \<open>
  What \<^verbatim>\<open>response.json()\<close> yields: the Python image of a JSON document. A \<^verbatim>\<open>dict\<close>
  is an association list read with \<open>map_of\<close>. Numbers (Python \<^verbatim>\<open>int\<close> and
  \<^verbatim>\<open>float\<close>) are exact reals: rounding, infinities and NaN are outside the model.
\<close>

datatype json =
    JNull
  | JBool bool
  | JNum real
  | JStr string
  | JArr "json list"
  | JObj "(string \<times> json) list"

text \<open>\<^verbatim>\<open>obj[key]\<close> with a string key: only a dict can be subscripted by a string.\<close>

fun py_getitem :: "json \<Rightarrow> string \<Rightarrow> error + json" where
  "py_getitem (JObj kvs) k = (case map_of kvs k of None \<Rightarrow> Inl (KeyError k) | Some v \<Rightarrow> Inr v)"
| "py_getitem v k = Inl TypeError"

text \<open>
  The conversion that \<^verbatim>\<open>math.radians\<close> and float arithmetic apply to an operand:
  numbers pass, \<^verbatim>\<open>bool\<close> is the integer 0 or 1, anything else raises TypeError.
\<close>

fun py_float :: "json \<Rightarrow> error + real" where
  "py_float (JNum x) = Inr x"
| "py_float (JBool b) = Inr (if b then 1 else 0)"
| "py_float v = Inl TypeError"

text \<open>Iterating a value with \<^verbatim>\<open>for\<close>: a list gives its items, a dict its keys,
  a string its characters; the other values are not iterable.\<close>

fun py_iter :: "json \<Rightarrow> error + json list" where
  "py_iter (JArr xs) = Inr xs"
| "py_iter (JObj kvs) = Inr (map JStr (rev (remdups (rev (map fst kvs)))))"
| "py_iter (JStr s) = Inr (map (\<lambda>c. JStr [c]) s)"
| "py_iter v = Inl TypeError"

section \<open>Track geometry (the gpxpy objects the program reads and writes)\<close>

record point =
  latitude :: real
  longitude :: real

record segment =
  points :: "point list"

record track =
  segments :: "segment list"

record waypoint =
  wpt_latitude :: json
  wpt_longitude :: json
  wpt_name :: string
  wpt_description :: string
  wpt_symbol :: string

record gpx =
  tracks :: "track list"
  waypoints :: "waypoint list"

text \<open>The generator \<^verbatim>\<open>pt for trk in gpx.tracks for seg in trk.segments for pt in seg.points\<close>.\<close>

definition all_points :: "gpx \<Rightarrow> point list" where
  "all_points g = concat (map (\<lambda>trk. concat (map points (segments trk))) (tracks g))"

section \<open>Bounding box\<close>

text \<open>
  Python's \<^verbatim>\<open>min\<close> and \<^verbatim>\<open>max\<close> over an iterable: ValueError on an empty one, otherwise a
  left-to-right scan that replaces the current value only by a strictly smaller (larger) item.
\<close>

fun py_min :: "real list \<Rightarrow> error + real" where
  "py_min [] = Inl ValueError"
| "py_min (x # xs) = Inr (fold (\<lambda>y m. if y < m then y else m) xs x)"

fun py_max :: "real list \<Rightarrow> error + real" where
  "py_max [] = Inl ValueError"
| "py_max (x # xs) = Inr (fold (\<lambda>y m. if y > m then y else m) xs x)"

definition get_bounds :: "gpx \<Rightarrow> error + (real \<times> real \<times> real \<times> real)" where
  "get_bounds g =
     (case py_min (map latitude (all_points g)) of Inl e \<Rightarrow> Inl e | Inr min_lat \<Rightarrow>
      case py_max (map latitude (all_points g)) of Inl e \<Rightarrow> Inl e | Inr max_lat \<Rightarrow>
      case py_min (map longitude (all_points g)) of Inl e \<Rightarrow> Inl e | Inr min_lon \<Rightarrow>
      case py_max (map longitude (all_points g)) of Inl e \<Rightarrow> Inl e | Inr max_lon \<Rightarrow>
      Inr (min_lat, min_lon, max_lat, max_lon))"

section \<open>Floating-point arithmetic\<close>

text \<open>
  A Python \<^verbatim>\<open>float\<close> is an IEEE 754 binary64 number. The operations \<^verbatim>\<open>+\<close>, \<^verbatim>\<open>-\<close>,
  \<^verbatim>\<open>*\<close>, \<^verbatim>\<open>/\<close> and \<^verbatim>\<open>math.sqrt\<close> return the exact result rounded to binary64;
  \<^verbatim>\<open>math.sin\<close>, \<^verbatim>\<open>math.cos\<close>, \<^verbatim>\<open>math.atan2\<close> and \<^verbatim>\<open>x ** 2\<close> (the C function
  \<^verbatim>\<open>pow\<close>) return what the C library of the platform returns; \<^verbatim>\<open>math.radians\<close>
  multiplies by the binary64 constant nearest to \<open>\<pi> / 180\<close>. None of this is code of the
  repository, so the arithmetic is a parameter of every function that computes with floats.
  A float is modelled by the real number it denotes; infinities and NaN are outside the model.
\<close>

record float_arith =
  fl :: "real \<Rightarrow> real"
  deg_to_rad :: real
  libm_sin :: "real \<Rightarrow> real"
  libm_cos :: "real \<Rightarrow> real"
  libm_atan2 :: "real \<Rightarrow> real \<Rightarrow> real"
  libm_pow2 :: "real \<Rightarrow> real"

text \<open>
  One such arithmetic, used for the example inputs: rounding to the nearest number with a
  significand of 53 bits, ties to the even significand (the exponent range is not bounded), and
  a library whose functions are correctly rounded. \<open>angle\<close> is the exact value that
  \<^verbatim>\<open>atan2(y, x)\<close> approximates, the angle of the point \<open>(x, y)\<close> in \<open>(-\<pi>, \<pi>]\<close>.
\<close>

definition round_even :: "real \<Rightarrow> int" where
  "round_even x =
     (let f = \<lfloor>x\<rfloor>; r = x - of_int f
      in if r < 1 / 2 then f else if r > 1 / 2 then f + 1 else if even f then f else f + 1)"

definition round64 :: "real \<Rightarrow> real" where
  "round64 x =
     (if x = 0 then 0
      else (let e = \<lfloor>log 2 \<bar>x\<bar>\<rfloor>; u = 2 powr (of_int e - 52)
            in u * of_int (round_even (x / u))))"

definition angle :: "real \<Rightarrow> real \<Rightarrow> real" where
  "angle y x =
     (if x > 0 then arctan (y / x)
      else if x < 0 then (if y \<ge> 0 then arctan (y / x) + pi else arctan (y / x) - pi)
      else if y > 0 then pi / 2
      else if y < 0 then - pi / 2
      else 0)"

definition ieee_arith :: float_arith where
  "ieee_arith =
     \<lparr>fl = round64,
      deg_to_rad = round64 (pi / 180),
      libm_sin = (\<lambda>x. round64 (sin x)),
      libm_cos = (\<lambda>x. round64 (cos x)),
      libm_atan2 = (\<lambda>y x. round64 (angle y x)),
      libm_pow2 = (\<lambda>x. round64 (x * x))\<rparr>"

section \<open>Name lookup\<close>

text \<open>
  The names bound at module level once \<^verbatim>\<open>cli.py\<close> has been imported: the module
  attributes Python sets, the imports, the two module constants, and every \<^verbatim>\<open>def\<close> and
  \<^verbatim>\<open>class\<close> of the file.
\<close>

definition module_globals :: "string list" where
  "module_globals =
    [''__name__'', ''__doc__'', ''__package__'', ''__loader__'', ''__spec__'', ''__file__'',
     ''__cached__'', ''__builtins__'',
     ''argparse'', ''math'', ''BytesIO'', ''folium'', ''gpxpy'', ''requests'', ''rich'',
     ''OVERPASS_URL'', ''console'',
     ''display_gpx_on_map'', ''download_gpx'', ''get_bounds'', ''Area'', ''POI'', ''Amenity'',
     ''Natural'', ''query_POIs'', ''query_snacks_and_drinks'', ''query_drinking_water'',
     ''add_waypoints_to_gpx'', ''haversine'', ''filter_pois_near_track'', ''main'']"

text \<open>The names of Python's \<^verbatim>\<open>builtins\<close> module: functions and types, constants, exceptions.\<close>

definition py_builtins :: "string list" where
  "py_builtins =
    [''abs'', ''aiter'', ''all'', ''anext'', ''any'', ''ascii'', ''bin'', ''bool'', ''breakpoint'',
     ''bytearray'', ''bytes'', ''callable'', ''chr'', ''classmethod'', ''compile'', ''complex'',
     ''copyright'', ''credits'', ''delattr'', ''dict'', ''dir'', ''divmod'', ''enumerate'', ''eval'',
     ''exec'', ''exit'', ''filter'', ''float'', ''format'', ''frozenset'', ''getattr'', ''globals'',
     ''hasattr'', ''hash'', ''help'', ''hex'', ''id'', ''input'', ''int'', ''isinstance'',
     ''issubclass'', ''iter'', ''len'', ''license'', ''list'', ''locals'', ''map'', ''max'',
     ''memoryview'', ''min'', ''next'', ''object'', ''oct'', ''open'', ''ord'', ''pow'', ''print'',
     ''property'', ''quit'', ''range'', ''repr'', ''reversed'', ''round'', ''set'', ''setattr'',
     ''slice'', ''sorted'', ''staticmethod'', ''str'', ''sum'', ''super'', ''tuple'', ''type'',
     ''vars'', ''zip'', ''__import__'', ''__build_class__'', ''__debug__'', ''__doc__'',
     ''__loader__'', ''__name__'', ''__package__'', ''__spec__'',
     ''True'', ''False'', ''None'', ''NotImplemented'', ''Ellipsis'',
     ''ArithmeticError'', ''AssertionError'', ''AttributeError'', ''BaseException'',
     ''BaseExceptionGroup'', ''BlockingIOError'', ''BrokenPipeError'', ''BufferError'',
     ''BytesWarning'', ''ChildProcessError'', ''ConnectionAbortedError'', ''ConnectionError'',
     ''ConnectionRefusedError'', ''ConnectionResetError'', ''DeprecationWarning'', ''EOFError'',
     ''EncodingWarning'', ''EnvironmentError'', ''Exception'', ''ExceptionGroup'',
     ''FileExistsError'', ''FileNotFoundError'', ''FloatingPointError'', ''FutureWarning'',
     ''GeneratorExit'', ''IOError'', ''ImportError'', ''ImportWarning'', ''IndentationError'',
     ''IndexError'', ''InterruptedError'', ''IsADirectoryError'', ''KeyError'',
     ''KeyboardInterrupt'', ''LookupError'', ''MemoryError'', ''ModuleNotFoundError'',
     ''NameError'', ''NotADirectoryError'', ''NotImplementedError'', ''OSError'',
     ''OverflowError'', ''PendingDeprecationWarning'', ''PermissionError'',
     ''ProcessLookupError'', ''PythonFinalizationError'', ''RecursionError'', ''ReferenceError'',
     ''ResourceWarning'', ''RuntimeError'', ''RuntimeWarning'', ''StopAsyncIteration'',
     ''StopIteration'', ''SyntaxError'', ''SyntaxWarning'', ''SystemError'', ''SystemExit'',
     ''TabError'', ''TimeoutError'', ''TypeError'', ''UnboundLocalError'', ''UnicodeDecodeError'',
     ''UnicodeEncodeError'', ''UnicodeError'', ''UnicodeTranslateError'', ''UnicodeWarning'',
     ''UserWarning'', ''ValueError'', ''Warning'', ''ZeroDivisionError'']"

text \<open>
  Reading a name inside a function. A name the function never assigns is looked up in the
  module's globals and then in the builtins, and NameError is raised when it is in neither.
  A name the function assigns somewhere is a local: reading it before its first assignment
  raises UnboundLocalError. Only success or failure of the lookup is recorded.
\<close>

definition load_global :: "string \<Rightarrow> error + unit" where
  "load_global n =
     (if n \<in> set module_globals \<or> n \<in> set py_builtins then Inr () else Inl (NameError n))"

definition load_fast :: "string list \<Rightarrow> string \<Rightarrow> error + unit" where
  "load_fast bound n = (if n \<in> set bound then Inr () else Inl (UnboundLocalError n))"

section \<open>POI categories and the Overpass query\<close>

record area =
  min_lat :: real
  min_lon :: real
  max_lat :: real
  max_lon :: real

text \<open>
  A \<^verbatim>\<open>POI\<close> object has the attributes \<^verbatim>\<open>_primary\<close> and \<^verbatim>\<open>_secondary\<close>, each \<^verbatim>\<open>None\<close>
  or a string. \<^verbatim>\<open>POI.__init__(self, *args, **kwargs)\<close> ignores its arguments and sets
  both to \<^verbatim>\<open>None\<close>.
\<close>

record poi_obj =
  attr_primary :: "string option"
  attr_secondary :: "string option"

definition POI_init :: "string list \<Rightarrow> (string \<times> string) list \<Rightarrow> poi_obj" where
  "POI_init args kwargs = \<lparr>attr_primary = None, attr_secondary = None\<rparr>"

text \<open>How an f-string renders an attribute that is \<^verbatim>\<open>None\<close> or a string.\<close>

fun py_format :: "string option \<Rightarrow> string" where
  "py_format None = ''None''"
| "py_format (Some s) = s"

definition POI_str :: "poi_obj \<Rightarrow> string" where
  "POI_str self =
     (let ret = [CHR 0x22] @ py_format (attr_primary self) @ [CHR 0x22]
      in case attr_secondary self of
           None \<Rightarrow> ret
         | Some s \<Rightarrow> ret @ ''='' @ [CHR 0x22] @ s @ [CHR 0x22])"

text \<open>
  \<^verbatim>\<open>POI.get_query_line\<close> evaluates the f-string \<^verbatim>\<open>f"node[{str(self)}](str(area));"\<close> as an
  expression statement and has no \<^verbatim>\<open>return\<close>: the text is built and dropped, and the call
  yields \<^verbatim>\<open>None\<close>. In that f-string only \<^verbatim>\<open>str(self)\<close> stands in braces; \<^verbatim>\<open>(str(area))\<close> is
  literal text.
\<close>

definition query_line_text :: "poi_obj \<Rightarrow> area \<Rightarrow> string" where
  "query_line_text self a = ''node['' @ POI_str self @ ''](str(area));''"

definition get_query_line :: "poi_obj \<Rightarrow> area \<Rightarrow> json" where
  "get_query_line self a = (let dropped = query_line_text self a in JNull)"

text \<open>
  \<^verbatim>\<open>Amenity.__init__(self, secondary)\<close> and \<^verbatim>\<open>Natural.__init__(self, secondary)\<close> call
  \<^verbatim>\<open>super().__init__(primary=..., secondary=secondary, *args, **kwargs)\<close>. Neither
  \<^verbatim>\<open>args\<close> nor \<^verbatim>\<open>kwargs\<close> is a parameter or assigned in the body, so both are global
  lookups, made while the call's arguments are evaluated and before \<^verbatim>\<open>POI.__init__\<close> runs.
\<close>

definition Amenity_init :: "string \<Rightarrow> error + poi_obj" where
  "Amenity_init secondary =
     (case load_global ''args'' of Inl e \<Rightarrow> Inl e | Inr u \<Rightarrow>
      case load_global ''kwargs'' of Inl e \<Rightarrow> Inl e | Inr v \<Rightarrow>
      Inr (POI_init [] [(''primary'', ''amenity''), (''secondary'', secondary)]))"

definition Natural_init :: "string \<Rightarrow> error + poi_obj" where
  "Natural_init secondary =
     (case load_global ''args'' of Inl e \<Rightarrow> Inl e | Inr u \<Rightarrow>
      case load_global ''kwargs'' of Inl e \<Rightarrow> Inl e | Inr v \<Rightarrow>
      Inr (POI_init [] [(''primary'', ''natural''), (''secondary'', secondary)]))"

text \<open>
  The world outside the program: the requests sent so far (URL and body), what the Overpass
  server answers to a body (\<open>Inl\<close> when the request, \<^verbatim>\<open>raise_for_status\<close> or the JSON
  decoding fails), the order in which this process iterates a set of strings (it depends on
  the hash seed of the process), and the floating-point arithmetic of the platform.
\<close>

record world =
  posted :: "(string \<times> string) list"
  overpass :: "string \<Rightarrow> error + json"
  set_order :: "string list \<Rightarrow> string list"
  arith :: float_arith

definition OVERPASS_URL :: string where
  "OVERPASS_URL = ''http://overpass-api.de/api/interpreter''"

text \<open>\<^verbatim>\<open>"  " + x\<close>: a string can only be concatenated with a string.\<close>

fun py_str_add :: "string \<Rightarrow> json \<Rightarrow> error + string" where
  "py_str_add s (JStr t) = Inr (s @ t)"
| "py_str_add s v = Inl TypeError"

text \<open>The list comprehension \<^verbatim>\<open>["  " + p.get_query_line(area) for p in pois]\<close>.\<close>

fun poi_lines :: "poi_obj list \<Rightarrow> area \<Rightarrow> error + string list" where
  "poi_lines [] a = Inr []"
| "poi_lines (p # ps) a =
     (case py_str_add ''  '' (get_query_line p a) of Inl e \<Rightarrow> Inl e | Inr l \<Rightarrow>
      case poi_lines ps a of Inl e \<Rightarrow> Inl e | Inr ls \<Rightarrow> Inr (l # ls))"

fun py_join :: "string \<Rightarrow> string list \<Rightarrow> string" where
  "py_join sep [] = []"
| "py_join sep [x] = x"
| "py_join sep (x # y # ys) = x @ sep @ py_join sep (y # ys)"

text \<open>The query text that \<^verbatim>\<open>query_POIs\<close> assembles before it posts it.\<close>

definition build_query :: "poi_obj list \<Rightarrow> area \<Rightarrow> error + string" where
  "build_query pois a =
     (case poi_lines pois a of Inl e \<Rightarrow> Inl e
      | Inr ls \<Rightarrow>
          Inr (py_join [CHR 0x0A]
                 ([''[out:json][timeout:25];'', ''(''] @ ls @ ['');'', ''out body;''])))"

definition query_POIs ::
    "poi_obj list \<Rightarrow> real \<Rightarrow> real \<Rightarrow> real \<Rightarrow> real \<Rightarrow> world \<Rightarrow> (error + json) \<times> world" where
  "query_POIs pois mnlat mnlon mxlat mxlon w =
     (let a = \<lparr>min_lat = mnlat, min_lon = mnlon, max_lat = mxlat, max_lon = mxlon\<rparr>
      in case build_query pois a of
           Inl e \<Rightarrow> (Inl e, w)
         | Inr query \<Rightarrow>
             (let w' = w\<lparr>posted := posted w @ [(OVERPASS_URL, query)]\<rparr>
              in case overpass w query of
                   Inl e \<Rightarrow> (Inl e, w')
                 | Inr doc \<Rightarrow> (py_getitem doc ''elements'', w')))"

text \<open>Building one category object per name, left to right, stopping at the first exception.\<close>

fun construct_all :: "(string \<Rightarrow> error + poi_obj) \<Rightarrow> string list \<Rightarrow> error + poi_obj list" where
  "construct_all mk [] = Inr []"
| "construct_all mk (n # ns) =
     (case mk n of Inl e \<Rightarrow> Inl e | Inr p \<Rightarrow>
      case construct_all mk ns of Inl e \<Rightarrow> Inl e | Inr ps \<Rightarrow> Inr (p # ps))"

text \<open>
  \<^verbatim>\<open>query_snacks_and_drinks\<close>: \<^verbatim>\<open>pois += ...\<close> makes \<^verbatim>\<open>pois\<close> a local of the function, and
  an augmented assignment reads its target first. The names bound at that point are the four
  parameters, \<^verbatim>\<open>amenities\<close> and \<^verbatim>\<open>naturals\<close>. The last line reads \<^verbatim>\<open>POIS\<close>, a global.
\<close>

definition query_snacks_and_drinks ::
    "real \<Rightarrow> real \<Rightarrow> real \<Rightarrow> real \<Rightarrow> world \<Rightarrow> (error + json) \<times> world" where
  "query_snacks_and_drinks mnlat mnlon mxlat mxlon w =
     (let amenities = [''drinking_water'', ''restaurant'', ''milk_dispenser'', ''pub'', ''shop'',
                       ''kiosk'', ''juice_bar'', ''fuel''];
          naturals = [''spring'']
      in case load_fast [''min_lat'', ''min_lon'', ''max_lat'', ''max_lon'', ''amenities'',
                         ''naturals''] ''pois'' of
           Inl e \<Rightarrow> (Inl e, w)
         | Inr u \<Rightarrow>
        (case construct_all Amenity_init (set_order w amenities) of
           Inl e \<Rightarrow> (Inl e, w)
         | Inr as \<Rightarrow>
        (case construct_all Natural_init (set_order w naturals) of
           Inl e \<Rightarrow> (Inl e, w)
         | Inr ns \<Rightarrow>
        (case load_global ''POIS'' of
           Inl e \<Rightarrow> (Inl e, w)
         | Inr v \<Rightarrow> query_POIs (as @ ns) mnlat mnlon mxlat mxlon w))))"

definition query_drinking_water ::
    "real \<Rightarrow> real \<Rightarrow> real \<Rightarrow> real \<Rightarrow> world \<Rightarrow> (error + json) \<times> world" where
  "query_drinking_water mnlat mnlon mxlat mxlon w =
     (case Amenity_init ''drinking_water'' of Inl e \<Rightarrow> (Inl e, w) | Inr p1 \<Rightarrow>
      case Natural_init ''spring'' of Inl e \<Rightarrow> (Inl e, w) | Inr p2 \<Rightarrow>
      query_POIs [p1, p2] mnlat mnlon mxlat mxlon w)"

section \<open>Waypoint merger\<close>

text \<open>
  \<^verbatim>\<open>add_waypoints_to_gpx\<close> appends to \<^verbatim>\<open>gpx.waypoints\<close> in place. The model returns the
  state of the GPX object when the call ends, and the exception if the call ended by one: the
  waypoints appended before an exception stay appended.
\<close>

fun add_waypoints_to_gpx :: "gpx \<Rightarrow> json list \<Rightarrow> gpx \<times> error option" where
  "add_waypoints_to_gpx g [] = (g, None)"
| "add_waypoints_to_gpx g (poi # pois) =
     (case py_getitem poi ''lat'' of Inl e \<Rightarrow> (g, Some e) | Inr lat \<Rightarrow>
      case py_getitem poi ''lon'' of Inl e \<Rightarrow> (g, Some e) | Inr lon \<Rightarrow>
      add_waypoints_to_gpx
        (g\<lparr>waypoints := waypoints g @
              [\<lparr>wpt_latitude = lat, wpt_longitude = lon, wpt_name = ''Water'',
                wpt_description = ''Water'', wpt_symbol = ''water-drop''\<rparr>]\<rparr>)
        pois)"

section \<open>Haversine distance\<close>

text \<open>
  \<^verbatim>\<open>haversine\<close>, operation by operation, in the arithmetic \<open>ar\<close>. \<^verbatim>\<open>math.sqrt\<close> raises
  ValueError on a negative argument. Over the reals the term \<open>a\<close> lies between 0 and 1; its
  binary64 value need not: rounding can leave it just above 1, and then \<open>1 - a\<close> is negative
  and the second \<^verbatim>\<open>math.sqrt\<close> raises.
\<close>

definition math_radians :: "float_arith \<Rightarrow> real \<Rightarrow> real" where
  "math_radians ar x = fl ar (x * deg_to_rad ar)"

definition math_sqrt :: "float_arith \<Rightarrow> real \<Rightarrow> error + real" where
  "math_sqrt ar x = (if x < 0 then Inl ValueError else Inr (fl ar (sqrt x)))"

definition haversine ::
    "float_arith \<Rightarrow> real \<Rightarrow> real \<Rightarrow> real \<Rightarrow> real \<Rightarrow> error + real" where
  "haversine ar lat1 lon1 lat2 lon2 =
     (let R = 6371000;
          phi1 = math_radians ar lat1;
          phi2 = math_radians ar lat2;
          d_phi = math_radians ar (fl ar (lat2 - lat1));
          d_lambda = math_radians ar (fl ar (lon2 - lon1));
          a = fl ar (libm_pow2 ar (libm_sin ar (fl ar (d_phi / 2)))
                     + fl ar (fl ar (libm_cos ar phi1 * libm_cos ar phi2)
                              * libm_pow2 ar (libm_sin ar (fl ar (d_lambda / 2)))))
      in case math_sqrt ar a of Inl e \<Rightarrow> Inl e | Inr sa \<Rightarrow>
         case math_sqrt ar (fl ar (1 - a)) of Inl e \<Rightarrow> Inl e | Inr sb \<Rightarrow>
         Inr (fl ar (R * fl ar (2 * libm_atan2 ar sa sb))))"

section \<open>Proximity filter\<close>

text \<open>
  \<^verbatim>\<open>any(haversine(lat, lon, pt.latitude, pt.longitude) < max_distance_m for pt in points)\<close>:
  the points are tried in order and the scan stops at the first one that is near. \<^verbatim>\<open>lat\<close>
  and \<^verbatim>\<open>lon\<close> are whatever the candidate holds; \<^verbatim>\<open>haversine\<close> raises TypeError on its first
  line when they are not numbers. A number is taken as the binary64 value the JSON parser
  made of it.
\<close>

fun any_near ::
    "float_arith \<Rightarrow> json \<Rightarrow> json \<Rightarrow> real \<Rightarrow> point list \<Rightarrow> error + bool" where
  "any_near ar lat lon max_distance_m [] = Inr False"
| "any_near ar lat lon max_distance_m (pt # pts) =
     (case py_float lat of Inl e \<Rightarrow> Inl e | Inr la \<Rightarrow>
      case py_float lon of Inl e \<Rightarrow> Inl e | Inr lo \<Rightarrow>
      case haversine ar la lo (latitude pt) (longitude pt) of Inl e \<Rightarrow> Inl e | Inr d \<Rightarrow>
      if d < max_distance_m then Inr True else any_near ar lat lon max_distance_m pts)"

fun filter_loop ::
    "float_arith \<Rightarrow> point list \<Rightarrow> real \<Rightarrow> json list \<Rightarrow> json list \<Rightarrow> error + json list" where
  "filter_loop ar pts max_distance_m nearby_pois [] = Inr nearby_pois"
| "filter_loop ar pts max_distance_m nearby_pois (poi # pois) =
     (case py_getitem poi ''lat'' of Inl e \<Rightarrow> Inl e | Inr lat \<Rightarrow>
      case py_getitem poi ''lon'' of Inl e \<Rightarrow> Inl e | Inr lon \<Rightarrow>
      case any_near ar lat lon max_distance_m pts of Inl e \<Rightarrow> Inl e | Inr near \<Rightarrow>
      filter_loop ar pts max_distance_m (if near then nearby_pois @ [poi] else nearby_pois) pois)"

definition filter_pois_near_track ::
    "float_arith \<Rightarrow> gpx \<Rightarrow> json list \<Rightarrow> real \<Rightarrow> error + json list" where
  "filter_pois_near_track ar g pois max_distance_m =
     filter_loop ar (all_points g) max_distance_m [] pois"

section \<open>The pipeline of \<^verbatim>\<open>main\<close>\<close>

text \<open>
  The steps of \<^verbatim>\<open>main\<close> between parsing the input and writing the output: bounding box,
  query, filter, merge. \<^verbatim>\<open>main\<close> has no \<^verbatim>\<open>try\<close>: an exception of any step ends the run.
  The value is the GPX object that would be serialised.
\<close>

definition main_pipeline :: "gpx \<Rightarrow> real \<Rightarrow> world \<Rightarrow> (error + gpx) \<times> world" where
  "main_pipeline g distance w =
     (case get_bounds g of
        Inl e \<Rightarrow> (Inl e, w)
      | Inr (mnlat, mnlon, mxlat, mxlon) \<Rightarrow>
     (case query_drinking_water mnlat mnlon mxlat mxlon w of
        (Inl e, w') \<Rightarrow> (Inl e, w')
      | (Inr elements, w') \<Rightarrow>
     (case py_iter elements of
        Inl e \<Rightarrow> (Inl e, w')
      | Inr candidates \<Rightarrow>
     (case filter_pois_near_track (arith w') g candidates distance of
        Inl e \<Rightarrow> (Inl e, w')
      | Inr pois \<Rightarrow>
     (case add_waypoints_to_gpx g pois of
        (g', Some e) \<Rightarrow> (Inl e, w')
      | (g', None) \<Rightarrow> (Inr g', w'))))))"

section \<open>Predicates used to state the properties\<close>

text \<open>A candidate from which \<^verbatim>\<open>poi["lat"]\<close> and \<^verbatim>\<open>poi["lon"]\<close> can be read.\<close>

definition has_lat_lon :: "json \<Rightarrow> bool" where
  "has_lat_lon poi =
     (case py_getitem poi ''lat'' of Inl e \<Rightarrow> False | Inr lat \<Rightarrow>
      case py_getitem poi ''lon'' of Inl e \<Rightarrow> False | Inr lon \<Rightarrow> True)"

text \<open>The waypoint \<open>wp\<close> has the coordinates of the candidate \<open>poi\<close> and the fixed labels.\<close>

definition carries :: "json \<Rightarrow> waypoint \<Rightarrow> bool" where
  "carries poi wp =
     (py_getitem poi ''lat'' = Inr (wpt_latitude wp)
      \<and> py_getitem poi ''lon'' = Inr (wpt_longitude wp)
      \<and> wpt_name wp = ''Water'' \<and> wpt_description wp = ''Water''
      \<and> wpt_symbol wp = ''water-drop'')"

text \<open>The requests that a call added to the log: \<open>w\<close> before the call, \<open>w'\<close> after.\<close>

definition requests_of :: "world \<Rightarrow> world \<Rightarrow> (string \<times> string) list" where
  "requests_of w w' = drop (length (posted w)) (posted w')"

text \<open>
  The distance from a candidate to a track point as \<^verbatim>\<open>filter_pois_near_track\<close> computes it:
  read \<^verbatim>\<open>poi["lat"]\<close> and \<^verbatim>\<open>poi["lon"]\<close>, then call \<^verbatim>\<open>haversine\<close>.
\<close>

definition poi_distance :: "float_arith \<Rightarrow> json \<Rightarrow> point \<Rightarrow> error + real" where
  "poi_distance ar poi pt =
     (case py_getitem poi ''lat'' of Inl e \<Rightarrow> Inl e | Inr lat \<Rightarrow>
      case py_getitem poi ''lon'' of Inl e \<Rightarrow> Inl e | Inr lon \<Rightarrow>
      case py_float lat of Inl e \<Rightarrow> Inl e | Inr la \<Rightarrow>
      case py_float lon of Inl e \<Rightarrow> Inl e | Inr lo \<Rightarrow>
      haversine ar la lo (latitude pt) (longitude pt))"

text \<open>The first of the keys \<^verbatim>\<open>lat\<close>, \<^verbatim>\<open>lon\<close> that a dict lacks, if it lacks one.\<close>

fun missing_coord :: "json \<Rightarrow> string option" where
  "missing_coord (JObj kvs) =
     (if map_of kvs ''lat'' = None then Some ''lat''
      else if map_of kvs ''lon'' = None then Some ''lon'' else None)"
| "missing_coord v = None"


section \<open>Example inputs\<close>

text \<open>A track of one segment with the points (0, 0) and (0, 0.001), and no waypoint.\<close>

definition ex_gpx :: gpx where
  "ex_gpx =
     \<lparr>tracks = [\<lparr>segments = [\<lparr>points = [\<lparr>latitude = 0, longitude = 0\<rparr>,
                                          \<lparr>latitude = 0, longitude = 1 / 1000\<rparr>]\<rparr>]\<rparr>],
      waypoints = []\<rparr>"

text \<open>A GPX file with one track that has one segment without points.\<close>

definition ex_empty_gpx :: gpx where
  "ex_empty_gpx = \<lparr>tracks = [\<lparr>segments = [\<lparr>points = []\<rparr>]\<rparr>], waypoints = []\<rparr>"

text \<open>Three elements as Overpass returns them: at the first track point, at the north pole,
  and one without coordinates.\<close>

definition ex_near_poi :: json where
  "ex_near_poi =
     JObj [(''type'', JStr ''node''), (''id'', JNum 1), (''lat'', JNum 0), (''lon'', JNum 0),
           (''tags'', JObj [(''amenity'', JStr ''drinking_water'')])]"

definition ex_far_poi :: json where
  "ex_far_poi =
     JObj [(''type'', JStr ''node''), (''id'', JNum 2), (''lat'', JNum 90), (''lon'', JNum 0),
           (''tags'', JObj [(''natural'', JStr ''spring'')])]"

definition ex_bad_poi :: json where
  "ex_bad_poi =
     JObj [(''type'', JStr ''node''), (''id'', JNum 3),
           (''tags'', JObj [(''amenity'', JStr ''drinking_water'')])]"

text \<open>A world with nothing sent yet, a server that refuses every request, sets iterated
  in the order they were written, and the arithmetic \<open>ieee_arith\<close>.\<close>

definition ex_world :: world where
  "ex_world =
     \<lparr>posted = [], overpass = (\<lambda>q. Inl HTTPError), set_order = (\<lambda>xs. xs),
      arith = ieee_arith\<rparr>"

text \<open>Two category objects: a fresh \<^verbatim>\<open>POI()\<close>, and one whose attributes were set by hand.\<close>

definition ex_poi_plain :: poi_obj where
  "ex_poi_plain = POI_init [] []"

definition ex_poi_water :: poi_obj where
  "ex_poi_water = \<lparr>attr_primary = Some ''amenity'', attr_secondary = Some ''drinking_water''\<rparr>"

section \<open>Properties of the bounding box\<close>

lemma fold_min_eq: "fold (\<lambda>y m. if y < m then y else m) xs (x::real) = Min (set (x # xs))"
proof (induction xs arbitrary: x)
  case Nil
  show ?case by simp
next
  case (Cons y ys)
  have "Min (insert x (insert y (set ys))) = Min (insert (min y x) (set ys))"
    by (cases "set ys = {}") (simp_all add: min.commute min.left_commute)
  then show ?case using Cons.IH [of "if y < x then y else x"]
    by (simp add: min_def not_less)
qed

lemma fold_max_eq: "fold (\<lambda>y m. if y > m then y else m) xs (x::real) = Max (set (x # xs))"
proof (induction xs arbitrary: x)
  case Nil
  show ?case by simp
next
  case (Cons y ys)
  have "Max (insert x (insert y (set ys))) = Max (insert (max y x) (set ys))"
    by (cases "set ys = {}") (simp_all add: max.commute max.left_commute)
  then show ?case using Cons.IH [of "if y > x then y else x"]
    by (simp add: max_def not_less)
qed

lemma py_min_Min:
  assumes "xs \<noteq> []"
  shows "py_min xs = Inr (Min (set xs))"
proof (cases xs)
  case Nil
  with assms show ?thesis by simp
next
  case (Cons y ys)
  show ?thesis unfolding Cons py_min.simps fold_min_eq ..
qed

lemma py_max_Max:
  assumes "xs \<noteq> []"
  shows "py_max xs = Inr (Max (set xs))"
proof (cases xs)
  case Nil
  with assms show ?thesis by simp
next
  case (Cons y ys)
  show ?thesis unfolding Cons py_max.simps fold_max_eq ..
qed

lemma get_bounds_nonempty:
  assumes "all_points g \<noteq> []"
  shows "get_bounds g =
    Inr (Min (latitude ` set (all_points g)), Min (longitude ` set (all_points g)),
         Max (latitude ` set (all_points g)), Max (longitude ` set (all_points g)))"
  using assms by (simp add: get_bounds_def py_min_Min py_max_Max)

text \<open>
  Claim C2. For a track with at least one point, \<^verbatim>\<open>get_bounds\<close> returns
  (south, west, north, east) with south \<open>\<le>\<close> north and west \<open>\<le>\<close> east, every track point
  has its latitude in [south, north] and its longitude in [west, east], and the four values
  are the minimum and maximum of the latitudes and of the longitudes over all points of all
  segments.
\<close>

theorem get_bounds_box:
  assumes "all_points g \<noteq> []"
  shows "\<exists>south west north east.
           get_bounds g = Inr (south, west, north, east)
         \<and> south \<le> north \<and> west \<le> east
         \<and> (\<forall>pt \<in> set (all_points g).
               south \<le> latitude pt \<and> latitude pt \<le> north
             \<and> west \<le> longitude pt \<and> longitude pt \<le> east)
         \<and> south = Min (latitude ` set (all_points g))
         \<and> north = Max (latitude ` set (all_points g))
         \<and> west = Min (longitude ` set (all_points g))
         \<and> east = Max (longitude ` set (all_points g))"
proof -
  let ?P = "set (all_points g)"
  have lat: "Min (latitude ` ?P) \<le> latitude pt \<and> latitude pt \<le> Max (latitude ` ?P)"
    if "pt \<in> ?P" for pt using that by simp
  have lon: "Min (longitude ` ?P) \<le> longitude pt \<and> longitude pt \<le> Max (longitude ` ?P)"
    if "pt \<in> ?P" for pt using that by simp
  obtain p0 where p0: "p0 \<in> ?P" using assms by (cases "all_points g") auto
  have sn: "Min (latitude ` ?P) \<le> Max (latitude ` ?P)"
    using lat [OF p0] by linarith
  have we: "Min (longitude ` ?P) \<le> Max (longitude ` ?P)"
    using lon [OF p0] by linarith
  show ?thesis
    unfolding get_bounds_nonempty [OF assms] using lat lon sn we by blast
qed

lemma all_points_ex_gpx:
  "all_points ex_gpx = [\<lparr>latitude = 0, longitude = 0\<rparr>, \<lparr>latitude = 0, longitude = 1 / 1000\<rparr>]"
  by (simp add: ex_gpx_def all_points_def)

theorem get_bounds_box_witness:
  "all_points ex_gpx \<noteq> [] \<and> get_bounds ex_gpx = Inr (0, 0, 0, 1 / 1000)"
proof -
  have h: "all_points ex_gpx \<noteq> []" by (simp add: all_points_ex_gpx)
  from get_bounds_box [OF h] obtain south west north east where
    b: "get_bounds ex_gpx = Inr (south, west, north, east)"
    and s: "south = Min (latitude ` set (all_points ex_gpx))"
    and n: "north = Max (latitude ` set (all_points ex_gpx))"
    and w: "west = Min (longitude ` set (all_points ex_gpx))"
    and e: "east = Max (longitude ` set (all_points ex_gpx))"
    by blast
  have "south = 0" "north = 0" "west = 0" "east = 1 / 1000"
    unfolding s n w e all_points_ex_gpx by simp_all
  with b h show ?thesis by simp
qed

lemma all_points_ex_empty_gpx: "all_points ex_empty_gpx = []"
  by (simp add: ex_empty_gpx_def all_points_def)

section \<open>Category objects cannot be constructed\<close>

lemma load_global_args: "load_global ''args'' = Inl (NameError ''args'')"
  by (simp add: load_global_def module_globals_def py_builtins_def)

lemma Amenity_init_raises: "Amenity_init s = Inl (NameError ''args'')"
  by (simp add: Amenity_init_def load_global_args)

lemma Natural_init_raises: "Natural_init s = Inl (NameError ''args'')"
  by (simp add: Natural_init_def load_global_args)

lemma query_drinking_water_raises:
  "query_drinking_water a b c d w = (Inl (NameError ''args''), w)"
  by (simp add: query_drinking_water_def Amenity_init_raises)

lemma query_snacks_and_drinks_raises:
  "query_snacks_and_drinks a b c d w = (Inl (UnboundLocalError ''pois''), w)"
  by (simp add: query_snacks_and_drinks_def load_fast_def)

text \<open>
  Claim C10. Constructing an \<^verbatim>\<open>Amenity\<close> or a \<^verbatim>\<open>Natural\<close> raises NameError whatever the
  argument, because \<^verbatim>\<open>args\<close> is bound nowhere; hence building a list of such objects fails
  at its first element, and \<^verbatim>\<open>query_drinking_water\<close> raises the NameError with the world
  unchanged: no query text was assembled and no request was sent.
  \<^verbatim>\<open>query_snacks_and_drinks\<close> fails even before it constructs a category object: reading
  its unbound local \<^verbatim>\<open>pois\<close> raises UnboundLocalError, a NameError as well.
\<close>

theorem category_construction_raises:
  "Amenity_init secondary = Inl (NameError ''args'')
   \<and> Natural_init secondary = Inl (NameError ''args'')
   \<and> construct_all Amenity_init (n # ns) = Inl (NameError ''args'')
   \<and> construct_all Natural_init (n # ns) = Inl (NameError ''args'')
   \<and> query_drinking_water mnlat mnlon mxlat mxlon w = (Inl (NameError ''args''), w)
   \<and> requests_of w (snd (query_drinking_water mnlat mnlon mxlat mxlon w)) = []
   \<and> query_snacks_and_drinks mnlat mnlon mxlat mxlon w = (Inl (UnboundLocalError ''pois''), w)"
  by (simp add: Amenity_init_raises Natural_init_raises query_drinking_water_raises
        query_snacks_and_drinks_raises requests_of_def)

section \<open>The empty track\<close>

text \<open>
  Claim C9. For a track without any point, \<^verbatim>\<open>get_bounds\<close> returns no bounding box: it
  raises (the ValueError of \<^verbatim>\<open>min\<close> on an empty sequence), and the pipeline of
  \<^verbatim>\<open>main\<close> ends with that exception, before any request is sent.
\<close>

theorem get_bounds_empty:
  assumes "all_points g = []"
  shows "get_bounds g = Inl ValueError \<and> main_pipeline g distance w = (Inl ValueError, w)"
  using assms by (simp add: get_bounds_def main_pipeline_def)

theorem get_bounds_empty_witness:
  "all_points ex_empty_gpx = [] \<and> get_bounds ex_empty_gpx = Inl ValueError
   \<and> main_pipeline ex_empty_gpx 100 ex_world = (Inl ValueError, ex_world)"
  using get_bounds_empty [OF all_points_ex_empty_gpx, of 100 ex_world] all_points_ex_empty_gpx
  by simp

section \<open>The query builder\<close>

lemma poi_lines_nonempty: "pois \<noteq> [] \<Longrightarrow> poi_lines pois a = Inl TypeError"
  by (cases pois) (simp_all add: get_query_line_def)

lemma build_query_nonempty: "pois \<noteq> [] \<Longrightarrow> build_query pois a = Inl TypeError"
  by (simp add: build_query_def poi_lines_nonempty)

lemma query_POIs_nonempty: "pois \<noteq> [] \<Longrightarrow> query_POIs pois a b c d w = (Inl TypeError, w)"
  by (simp add: query_POIs_def build_query_nonempty)

lemma build_query_empty:
  "build_query [] a =
     Inr (''[out:json][timeout:25];'' @ [CHR 0x0A] @ ''('' @ [CHR 0x0A] @ '');'' @ [CHR 0x0A]
          @ ''out body;'')"
  by (simp add: build_query_def)

text \<open>
  Claim C3 says that every category contributes one clause
  \<^verbatim>\<open>node[tag_key="tag_value"](south,west,north,east);\<close> to the query text. On the list that
  holds one fresh \<^verbatim>\<open>POI()\<close> and the box (0, 0, 1, 1) the code produces no text: the clause
  it formats is \<^verbatim>\<open>node["None"](str(area));\<close>, that clause is dropped because
  \<^verbatim>\<open>get_query_line\<close> returns \<^verbatim>\<open>None\<close>, and \<^verbatim>\<open>"  " + None\<close> raises TypeError before
  anything is sent.
\<close>

theorem query_POIs_one_category:
  "query_line_text ex_poi_plain \<lparr>min_lat = 0, min_lon = 0, max_lat = 1, max_lon = 1\<rparr>
     = ''node['' @ [CHR 0x22] @ ''None'' @ [CHR 0x22] @ ''](str(area));''
   \<and> get_query_line ex_poi_plain \<lparr>min_lat = 0, min_lon = 0, max_lat = 1, max_lon = 1\<rparr> = JNull
   \<and> build_query [ex_poi_plain] \<lparr>min_lat = 0, min_lon = 0, max_lat = 1, max_lon = 1\<rparr>
     = Inl TypeError
   \<and> query_POIs [ex_poi_plain] 0 0 1 1 ex_world = (Inl TypeError, ex_world)"
  by (simp add: query_line_text_def POI_str_def ex_poi_plain_def POI_init_def
        get_query_line_def build_query_def query_POIs_def)

text \<open>
  Claim C8 says that two invocations of the query builder with the same category set and the
  same bounding box yield the same query text. For the set of the two category objects
  \<open>ex_poi_plain\<close> and \<open>ex_poi_water\<close> and the box (0, 0, 1, 1) no invocation yields a query
  text, in whichever order the set is iterated: \<^verbatim>\<open>"  " + None\<close> raises TypeError and nothing
  is sent. The two clauses that \<^verbatim>\<open>get_query_line\<close> formats and drops differ, so the order of
  iteration would show in a text made of them. \<^verbatim>\<open>query_snacks_and_drinks\<close> raises before it
  iterates its sets.
\<close>

theorem query_builder_yields_no_text:
  "build_query [ex_poi_plain, ex_poi_water] \<lparr>min_lat = 0, min_lon = 0, max_lat = 1, max_lon = 1\<rparr>
     = Inl TypeError
   \<and> build_query [ex_poi_water, ex_poi_plain] \<lparr>min_lat = 0, min_lon = 0, max_lat = 1, max_lon = 1\<rparr>
     = Inl TypeError
   \<and> query_POIs [ex_poi_plain, ex_poi_water] 0 0 1 1 ex_world = (Inl TypeError, ex_world)
   \<and> query_POIs [ex_poi_water, ex_poi_plain] 0 0 1 1 ex_world = (Inl TypeError, ex_world)
   \<and> query_line_text ex_poi_plain \<lparr>min_lat = 0, min_lon = 0, max_lat = 1, max_lon = 1\<rparr>
     \<noteq> query_line_text ex_poi_water \<lparr>min_lat = 0, min_lon = 0, max_lat = 1, max_lon = 1\<rparr>
   \<and> query_snacks_and_drinks 0 0 1 1 ex_world = (Inl (UnboundLocalError ''pois''), ex_world)"
  by (simp add: build_query_nonempty query_POIs_nonempty query_snacks_and_drinks_raises
        query_line_text_def POI_str_def ex_poi_plain_def ex_poi_water_def POI_init_def)

section \<open>The waypoint merger\<close>

lemma add_waypoints_general:
  "list_all has_lat_lon pois \<Longrightarrow>
   \<exists>ws. add_waypoints_to_gpx g pois = (g\<lparr>waypoints := waypoints g @ ws\<rparr>, None)
      \<and> list_all2 carries pois ws"
proof (induction pois arbitrary: g)
  case Nil
  show ?case by simp
next
  case (Cons poi pois)
  from Cons.prems obtain lat lon where
    ll: "py_getitem poi ''lat'' = Inr lat" "py_getitem poi ''lon'' = Inr lon"
    by (auto simp: has_lat_lon_def split: sum.splits)
  let ?wp = "\<lparr>wpt_latitude = lat, wpt_longitude = lon, wpt_name = ''Water'',
              wpt_description = ''Water'', wpt_symbol = ''water-drop''\<rparr>"
  let ?g = "g\<lparr>waypoints := waypoints g @ [?wp]\<rparr>"
  from Cons.prems have "list_all has_lat_lon pois" by simp
  from Cons.IH [OF this, of ?g] obtain ws where
    ws: "add_waypoints_to_gpx ?g pois = (?g\<lparr>waypoints := waypoints ?g @ ws\<rparr>, None)"
        "list_all2 carries pois ws" by blast
  have "add_waypoints_to_gpx g (poi # pois) = (g\<lparr>waypoints := waypoints g @ (?wp # ws)\<rparr>, None)"
    using ws(1) by (simp add: ll)
  moreover have "list_all2 carries (poi # pois) (?wp # ws)"
    using ws(2) by (simp add: carries_def ll)
  ultimately show ?case by blast
qed

text \<open>
  Claim C6. For candidates that have their coordinates, \<^verbatim>\<open>add_waypoints_to_gpx\<close> appends
  exactly one waypoint per candidate to the waypoints the track already has, in the order of
  the candidates; the waypoint count grows by the number of candidates, and each new waypoint
  has the latitude and longitude of its candidate, the name and description "Water" and the
  symbol "water-drop".
\<close>

theorem add_waypoints_to_gpx_appends:
  assumes "list_all has_lat_lon pois"
  shows "\<exists>ws. add_waypoints_to_gpx g pois = (g\<lparr>waypoints := waypoints g @ ws\<rparr>, None)
           \<and> length (waypoints (fst (add_waypoints_to_gpx g pois)))
             = length (waypoints g) + length pois
           \<and> list_all2 carries pois ws"
proof -
  from add_waypoints_general [OF assms, of g] obtain ws where
    ws: "add_waypoints_to_gpx g pois = (g\<lparr>waypoints := waypoints g @ ws\<rparr>, None)"
        "list_all2 carries pois ws" by blast
  from ws(2) have "length ws = length pois" by (simp add: list_all2_lengthD)
  with ws show ?thesis by auto
qed

theorem add_waypoints_to_gpx_appends_witness:
  "list_all has_lat_lon [ex_near_poi, ex_far_poi]
   \<and> length (waypoints (fst (add_waypoints_to_gpx ex_gpx [ex_near_poi, ex_far_poi]))) = 2
   \<and> snd (add_waypoints_to_gpx ex_gpx [ex_near_poi, ex_far_poi]) = None"
proof -
  have h: "list_all has_lat_lon [ex_near_poi, ex_far_poi]"
    by (simp add: has_lat_lon_def ex_near_poi_def ex_far_poi_def)
  from add_waypoints_to_gpx_appends [OF h, of ex_gpx] obtain ws where
    "add_waypoints_to_gpx ex_gpx [ex_near_poi, ex_far_poi]
       = (ex_gpx\<lparr>waypoints := waypoints ex_gpx @ ws\<rparr>, None)"
    "length (waypoints (fst (add_waypoints_to_gpx ex_gpx [ex_near_poi, ex_far_poi])))
       = length (waypoints ex_gpx) + length [ex_near_poi, ex_far_poi]"
    by blast
  with h show ?thesis by (simp add: ex_gpx_def)
qed

lemma gpx_append_nothing: "\<exists>ws. g = g\<lparr>waypoints := waypoints g @ ws\<rparr>"
  by (rule exI [of _ "[]"]) simp

lemma add_waypoints_frame:
  "\<exists>ws. fst (add_waypoints_to_gpx g pois) = g\<lparr>waypoints := waypoints g @ ws\<rparr>"
proof (induction pois arbitrary: g)
  case Nil
  show ?case by (simp add: gpx_append_nothing)
next
  case (Cons poi pois)
  show ?case
  proof (cases "py_getitem poi ''lat''")
    case (Inl e)
    show ?thesis using Inl by (simp add: gpx_append_nothing)
  next
    case lat: (Inr lat)
    show ?thesis
    proof (cases "py_getitem poi ''lon''")
      case (Inl e)
      show ?thesis using Inl lat by (simp add: gpx_append_nothing)
    next
      case lon: (Inr lon)
      let ?wp = "\<lparr>wpt_latitude = lat, wpt_longitude = lon, wpt_name = ''Water'',
              wpt_description = ''Water'', wpt_symbol = ''water-drop''\<rparr>"
      from Cons.IH [of "g\<lparr>waypoints := waypoints g @ [?wp]\<rparr>"] obtain ws where
        "fst (add_waypoints_to_gpx (g\<lparr>waypoints := waypoints g @ [?wp]\<rparr>) pois)
           = g\<lparr>waypoints := waypoints g @ [?wp]\<rparr>\<lparr>waypoints := (waypoints g @ [?wp]) @ ws\<rparr>"
        by auto
      then have "fst (add_waypoints_to_gpx g (poi # pois))
                   = g\<lparr>waypoints := waypoints g @ (?wp # ws)\<rparr>"
        using lat lon by simp
      then show ?thesis by blast
    qed
  qed
qed

text \<open>
  Claim C7. Whatever the candidates (and also when the call ends by an exception),
  \<^verbatim>\<open>add_waypoints_to_gpx\<close> leaves the tracks as they were: the same segments with the same
  points in the same order. The GPX object it leaves differs from the one it was given only
  in the waypoint list, which keeps its old entries as a prefix.
\<close>

theorem add_waypoints_to_gpx_keeps_tracks:
  "tracks (fst (add_waypoints_to_gpx g pois)) = tracks g
   \<and> all_points (fst (add_waypoints_to_gpx g pois)) = all_points g
   \<and> (\<exists>ws. fst (add_waypoints_to_gpx g pois) = g\<lparr>waypoints := waypoints g @ ws\<rparr>)"
proof -
  from add_waypoints_frame [of g pois] obtain ws where
    eq: "fst (add_waypoints_to_gpx g pois) = g\<lparr>waypoints := waypoints g @ ws\<rparr>" by blast
  then show ?thesis by (auto simp: all_points_def)
qed

section \<open>The distance function\<close>

text \<open>Over the reals the term \<open>a\<close> of the formula lies between 0 and 1, whatever the
  coordinates: it is a mean of a squared sine and a squared cosine.\<close>

lemma hav_identity:
  "(sin ((y - x) / 2))\<^sup>2 + cos x * cos y = (cos ((x + y) / 2))\<^sup>2" for x y :: real
proof -
  define u where "u = (x + y) / 2"
  define v where "v = (y - x) / 2"
  have x: "x = u - v" and y: "y = u + v" by (simp_all add: u_def v_def field_simps)
  have "cos x * cos y = (cos u * cos v + sin u * sin v) * (cos u * cos v - sin u * sin v)"
    unfolding x y by (simp add: cos_add cos_diff)
  also have "\<dots> = (cos u * cos v)\<^sup>2 - (sin u * sin v)\<^sup>2"
    by (simp only: power2_eq_square square_diff_square_factored)
  also have "\<dots> = (cos u)\<^sup>2 * (cos v)\<^sup>2 - (sin u)\<^sup>2 * (sin v)\<^sup>2"
    by (simp only: power_mult_distrib)
  also have "\<dots> = (cos u)\<^sup>2 * (1 - (sin v)\<^sup>2) - (1 - (cos u)\<^sup>2) * (sin v)\<^sup>2"
    by (simp only: cos_squared_eq [of v] sin_squared_eq [of u])
  also have "\<dots> = (cos u)\<^sup>2 - (sin v)\<^sup>2" by (simp add: algebra_simps)
  finally show ?thesis by (simp add: u_def v_def)
qed

lemma hav_range:
  fixes x y l :: real
  defines "a \<equiv> (sin ((y - x) / 2))\<^sup>2 + cos x * cos y * (sin (l / 2))\<^sup>2"
  shows "0 \<le> a \<and> a \<le> 1"
proof -
  define s where "s = (sin (l / 2))\<^sup>2"
  define p where "p = (sin ((y - x) / 2))\<^sup>2"
  define q where "q = (cos ((x + y) / 2))\<^sup>2"
  have s: "0 \<le> s" "s \<le> 1" by (simp_all add: s_def abs_square_le_1)
  have p: "0 \<le> p" "p \<le> 1" by (simp_all add: p_def abs_square_le_1)
  have q: "0 \<le> q" "q \<le> 1" by (simp_all add: q_def abs_square_le_1)
  have cc: "cos x * cos y = q - p" using hav_identity [of y x] by (simp add: p_def q_def)
  have a: "a = (1 - s) * p + s * q"
    unfolding a_def cc s_def [symmetric] p_def [symmetric] by (simp add: algebra_simps)
  have lo: "0 \<le> (1 - s) * p" "0 \<le> s * q" using s p q by simp_all
  have "(1 - s) * p \<le> (1 - s) * 1" using s p by (intro mult_left_mono) simp_all
  then have hi1: "(1 - s) * p \<le> 1 - s" by simp
  have "s * q \<le> s * 1" using s q by (intro mult_left_mono) simp_all
  then have hi2: "s * q \<le> s" by simp
  have "0 \<le> a" unfolding a using lo by linarith
  moreover have "a \<le> 1" unfolding a using hi1 hi2 by linarith
  ultimately show ?thesis by simp
qed

text \<open>
  Of the code the properties of a distance hold as far as the arithmetic allows. The distance
  of a coordinate to itself is 0 in every arithmetic that keeps 0 and 1 and in which
  \<open>sin 0 = 0\<close>, \<open>0 ** 2 = 0\<close> and \<open>atan2(0, 1) = 0\<close>, as binary64 does. That a value is
  returned for all coordinates does not hold in binary64: for the antipodal coordinates
  (-8, 180) and (8, 0) the rounded term \<open>a\<close> is 1.0000000000000002 there, and
  \<^verbatim>\<open>math.sqrt(1 - a)\<close> raises ValueError.
\<close>

lemma round64_0: "round64 0 = 0"
  by (simp add: round64_def)

lemma round64_1: "round64 1 = 1"
proof -
  have u: "(2::real) powr (- 52) = 1 / 2 ^ 52"
    by (simp add: powr_minus_divide powr_realpow [symmetric])
  have "round_even (2 ^ 52) = 2 ^ 52"
    by (simp add: round_even_def Let_def)
  then show ?thesis
    by (simp add: round64_def Let_def u)
qed

lemma haversine_diag:
  assumes "fl ar 0 = 0" "fl ar 1 = 1" "libm_sin ar 0 = 0" "libm_pow2 ar 0 = 0"
    "libm_atan2 ar 0 1 = 0"
  shows "haversine ar lat lon lat lon = Inr 0"
  by (simp add: haversine_def math_radians_def math_sqrt_def assms)

lemma haversine_ieee_diag: "haversine ieee_arith lat lon lat lon = Inr 0"
  by (rule haversine_diag) (simp_all add: ieee_arith_def round64_0 round64_1 angle_def)

section \<open>The proximity filter\<close>

text \<open>The loop over a concatenation: an exception in the first part ends the run, otherwise
  the second part continues with what the first part accepted.\<close>

lemma filter_loop_append:
  "filter_loop ar pts m acc (xs @ ys) =
     (case filter_loop ar pts m acc xs of Inl e \<Rightarrow> Inl e
      | Inr acc' \<Rightarrow> filter_loop ar pts m acc' ys)"
  by (induction xs arbitrary: acc) (simp_all split: sum.splits)

lemma filter_loop_missing:
  assumes "missing_coord bad = Some k"
  shows "filter_loop ar pts m acc (bad # post) = Inl (KeyError k)"
  using assms by (cases bad) (auto split: if_splits option.splits)

text \<open>Every candidate that the filter accepted has both coordinates, which is what
  the waypoint merger needs.\<close>

lemma filter_accepted_has_lat_lon:
  "filter_loop ar pts m acc pois = Inr out \<Longrightarrow> list_all has_lat_lon acc \<Longrightarrow> list_all has_lat_lon out"
proof (induction pois arbitrary: acc)
  case Nil
  then show ?case by simp
next
  case (Cons poi pois)
  from Cons.prems(1) obtain lat lon near where
    c: "py_getitem poi ''lat'' = Inr lat" "py_getitem poi ''lon'' = Inr lon"
       "any_near ar lat lon m pts = Inr near"
       "filter_loop ar pts m (if near then acc @ [poi] else acc) pois = Inr out"
    by (auto split: sum.splits)
  have "has_lat_lon poi" by (simp add: has_lat_lon_def c)
  with Cons.prems(2) have "list_all has_lat_lon (if near then acc @ [poi] else acc)"
    by simp
  from Cons.IH [OF c(4) this] show ?case .
qed

lemma filter_output_has_lat_lon:
  "filter_pois_near_track ar g pois m = Inr out \<Longrightarrow> list_all has_lat_lon out"
  unfolding filter_pois_near_track_def
  by (erule filter_accepted_has_lat_lon) simp

text \<open>
  Whenever the filter returns, in any arithmetic, its output is the subsequence of the
  candidates that have a track point at a distance strictly below the threshold, in the order
  of the input. It does not return on every input: a candidate without coordinates, or a
  distance computation that raises, ends it with the exception.
\<close>

lemma any_near_returns:
  assumes "py_float lat = Inr la" "py_float lon = Inr lo"
    and "any_near ar lat lon m pts = Inr near"
  shows "near \<longleftrightarrow>
           (\<exists>pt \<in> set pts. \<exists>d. haversine ar la lo (latitude pt) (longitude pt) = Inr d \<and> d < m)"
  using assms(3)
proof (induction pts)
  case Nil
  then show ?case by simp
next
  case (Cons pt pts)
  then show ?case by (auto simp: assms(1,2) split: sum.splits if_splits)
qed

lemma any_near_Inr_numeric:
  assumes "any_near ar lat lon m pts = Inr near" "pts \<noteq> []"
  shows "\<exists>la lo. py_float lat = Inr la \<and> py_float lon = Inr lo"
  using assms by (cases pts) (auto split: sum.splits)

lemma filter_loop_returns:
  assumes "filter_loop ar pts m acc pois = Inr out"
  shows "out = acc @ filter (\<lambda>poi. \<exists>pt \<in> set pts. \<exists>d. poi_distance ar poi pt = Inr d \<and> d < m) pois"
  using assms
proof (induction pois arbitrary: acc)
  case Nil
  then show ?case by simp
next
  case (Cons poi pois)
  let ?P = "\<lambda>poi. \<exists>pt \<in> set pts. \<exists>d. poi_distance ar poi pt = Inr d \<and> d < m"
  from Cons.prems obtain lat lon near where
    c: "py_getitem poi ''lat'' = Inr lat" "py_getitem poi ''lon'' = Inr lon"
       "any_near ar lat lon m pts = Inr near"
       "filter_loop ar pts m (if near then acc @ [poi] else acc) pois = Inr out"
    by (auto split: sum.splits)
  have near: "near \<longleftrightarrow> ?P poi"
  proof (cases "pts = []")
    case True
    with c(3) show ?thesis by simp
  next
    case False
    from any_near_Inr_numeric [OF c(3) False] obtain la lo where
      n: "py_float lat = Inr la" "py_float lon = Inr lo" by blast
    have "poi_distance ar poi pt = haversine ar la lo (latitude pt) (longitude pt)" for pt
      by (simp add: poi_distance_def c n)
    with any_near_returns [OF n c(3)] show ?thesis by simp
  qed
  from Cons.IH [OF c(4)] near show ?case by simp
qed

lemma filter_returns:
  assumes "filter_pois_near_track ar g pois m = Inr out"
  shows "out = filter (\<lambda>poi. \<exists>pt \<in> set (all_points g).
                          \<exists>d. poi_distance ar poi pt = Inr d \<and> d < m) pois
         \<and> subseq out pois"
proof -
  from assms have "filter_loop ar (all_points g) m [] pois = Inr out"
    by (simp add: filter_pois_near_track_def)
  from filter_loop_returns [OF this] show ?thesis by simp
qed

text \<open>
  Claim C4 says that a candidate without latitude or longitude is left out and the filter
  still returns the filtered rest. On the track \<open>ex_gpx\<close> with the candidates
  \<open>ex_bad_poi\<close> (no \<^verbatim>\<open>lat\<close>, no \<^verbatim>\<open>lon\<close>) and \<open>ex_near_poi\<close> the filter returns
  nothing: it raises KeyError.
\<close>

theorem filter_pois_near_track_malformed_counterexample:
  "filter_pois_near_track ieee_arith ex_gpx [ex_bad_poi, ex_near_poi] 100 = Inl (KeyError ''lat'')"
  by (simp add: filter_pois_near_track_def ex_bad_poi_def)

text \<open>
  Claim C4 as amended. A candidate that is a dict without \<^verbatim>\<open>lat\<close>, or without
  \<^verbatim>\<open>lon\<close>, is not skipped, and a list that holds one never yields an output: if an
  earlier candidate ends the filter with an exception, that exception is the result; otherwise
  the filter raises KeyError for the first missing key when it reaches that candidate,
  whatever the candidates after it are.
\<close>

theorem filter_pois_near_track_malformed_raises:
  assumes "missing_coord bad = Some k"
  shows "filter_pois_near_track ar g (pre @ bad # post) m =
           (case filter_pois_near_track ar g pre m of
              Inl e \<Rightarrow> Inl e
            | Inr out \<Rightarrow> Inl (KeyError k))"
proof (cases "filter_loop ar (all_points g) m [] pre")
  case (Inl e)
  then show ?thesis
    by (simp only: filter_pois_near_track_def filter_loop_append sum.case)
next
  case (Inr acc)
  then show ?thesis
    by (simp only: filter_pois_near_track_def filter_loop_append sum.case
          filter_loop_missing [OF assms])
qed

lemma filter_ex_near: "filter_pois_near_track ieee_arith ex_gpx [ex_near_poi] 100 = Inr [ex_near_poi]"
  by (simp add: filter_pois_near_track_def all_points_ex_gpx ex_near_poi_def haversine_ieee_diag)

theorem filter_pois_near_track_malformed_raises_witness:
  "missing_coord ex_bad_poi = Some ''lat''
   \<and> filter_pois_near_track ieee_arith ex_gpx [ex_near_poi] 100 = Inr [ex_near_poi]
   \<and> filter_pois_near_track ieee_arith ex_gpx ([ex_near_poi] @ ex_bad_poi # [ex_far_poi]) 100
       = Inl (KeyError ''lat'')"
proof -
  have h: "missing_coord ex_bad_poi = Some ''lat''"
    by (simp add: ex_bad_poi_def)
  from filter_pois_near_track_malformed_raises [OF h, of ieee_arith ex_gpx "[ex_near_poi]" "[ex_far_poi]" 100]
  have "filter_pois_near_track ieee_arith ex_gpx ([ex_near_poi] @ ex_bad_poi # [ex_far_poi]) 100
          = Inl (KeyError ''lat'')"
    by (simp only: filter_ex_near sum.case)
  with h filter_ex_near show ?thesis by simp
qed

end
